theory Spec2Isabelle
  imports Complex_Main
begin

section \<open>Python values used by the service\<close>

text \<open>
  A Python \<open>str\<close> is modelled as a \<open>string\<close>, one \<open>char\<close> per code point (the code points
  0 to 255). \<open>str.split()\<close> and \<open>str.strip()\<close> without arguments cut at the characters
  for which \<open>str.isspace\<close> holds; in this range they are tab, line feed, vertical tab,
  form feed, carriage return, the separators 0x1C to 0x1F, space, 0x85 and 0xA0.
\<close>

definition isspace :: "char \<Rightarrow> bool" where
  "isspace c =
     (let n = (of_char c :: nat)
      in (9 \<le> n \<and> n \<le> 13) \<or> (28 \<le> n \<and> n \<le> 32) \<or> n = 133 \<or> n = 160)"

text \<open>\<open>text.split()\<close>: \<open>cur\<close> is the token being read.\<close>

fun split_from :: "string \<Rightarrow> string \<Rightarrow> string list" where
  "split_from cur [] = (if cur = [] then [] else [cur])"
| "split_from cur (c # cs) =
     (if isspace c then (if cur = [] then split_from [] cs else cur # split_from [] cs)
      else split_from (cur @ [c]) cs)"

definition py_split :: "string \<Rightarrow> string list" where
  "py_split text = split_from [] text"

text \<open>\<open>text.strip()\<close>.\<close>

definition py_strip :: "string \<Rightarrow> string" where
  "py_strip text = rev (dropWhile isspace (rev (dropWhile isspace text)))"

text \<open>\<open>sep.join(xs)\<close> on a list of strings.\<close>

fun join :: "string \<Rightarrow> string list \<Rightarrow> string" where
  "join sep [] = []"
| "join sep [x] = x"
| "join sep (x # y # ys) = x @ sep @ join sep (y # ys)"

text \<open>
  \<open>xs[lo:hi]\<close> with Python's rules: a negative bound counts from the end, and both
  bounds are clamped to the list.
\<close>

definition py_slice :: "'a list \<Rightarrow> int \<Rightarrow> int \<Rightarrow> 'a list" where
  "py_slice xs lo hi =
     (let n = int (length xs);
          l = (if lo < 0 then max (lo + n) 0 else min lo n);
          h = (if hi < 0 then max (hi + n) 0 else min hi n)
      in take (nat h - nat l) (drop (nat l) xs))"

text \<open>\<open>str(n)\<close> for a non-negative integer.\<close>

fun str_nat :: "nat \<Rightarrow> string" where
  "str_nat n =
     (if n < 10 then [char_of (48 + n)]
      else str_nat (n div 10) @ [char_of (48 + n mod 10)])"

declare str_nat.simps [simp del]

text \<open>
  The values a JSON payload or a metadata dictionary holds. A \<open>float\<close> is modelled by
  the rational number it denotes.
\<close>

datatype pyval = PyNone | PyBool bool | PyInt int | PyFloat rat | PyStr string

fun type_name :: "pyval \<Rightarrow> string" where
  "type_name PyNone = ''NoneType''"
| "type_name (PyBool b) = ''bool''"
| "type_name (PyInt i) = ''int''"
| "type_name (PyFloat r) = ''float''"
| "type_name (PyStr s) = ''str''"

text \<open>An exception, with the message \<open>str(e)\<close> gives.\<close>

datatype exn = Exception string

fun str_exn :: "exn \<Rightarrow> string" where
  "str_exn (Exception msg) = msg"

text \<open>
  \<open>sep.join(xs)\<close> on a list of arbitrary values: the first item that is not a \<open>str\<close>
  raises \<open>TypeError\<close>.
\<close>

fun join_vals :: "string \<Rightarrow> pyval list \<Rightarrow> nat \<Rightarrow> exn + string list" where
  "join_vals sep [] i = Inr []"
| "join_vals sep (PyStr s # vs) i =
     (case join_vals sep vs (Suc i) of Inl e \<Rightarrow> Inl e | Inr ss \<Rightarrow> Inr (s # ss))"
| "join_vals sep (v # vs) i =
     Inl (Exception (''sequence item '' @ str_nat i @ '': expected str instance, '' @
                     type_name v @ '' found''))"

definition py_join :: "string \<Rightarrow> pyval list \<Rightarrow> exn + string" where
  "py_join sep vs = (case join_vals sep vs 0 of Inl e \<Rightarrow> Inl e | Inr ss \<Rightarrow> Inr (join sep ss))"

section \<open>chunker.py\<close>

text \<open>
  The \<open>while\<close> loop of \<open>chunk_text\<close>. \<open>i\<close> is a Python integer, and nothing bounds
  the loop when the stride \<open>chunk_size - chunk_overlap\<close> is not positive: a run that
  never leaves the loop is the value \<open>None\<close>.
\<close>

partial_function (option) chunk_loop ::
  "string list \<Rightarrow> int \<Rightarrow> int \<Rightarrow> int \<Rightarrow> string list \<Rightarrow> string list option" where
  "chunk_loop tokens chunk_size chunk_overlap i chunks =
     (if i < int (length tokens)
      then chunk_loop tokens chunk_size chunk_overlap (i + (chunk_size - chunk_overlap))
             (chunks @ [join '' '' (py_slice tokens i (i + chunk_size))])
      else Some chunks)"

declare chunk_loop.simps [code]

definition chunk_text :: "string \<Rightarrow> int \<Rightarrow> int \<Rightarrow> string list option" where
  "chunk_text text chunk_size chunk_overlap =
     (if text = [] then Some []
      else let tokens = py_split text in
        if length tokens = 0 then Some []
        else chunk_loop tokens chunk_size chunk_overlap 0 [])"

section \<open>utils.py\<close>

text \<open>The JSON body posted to the backend; an absent key is \<open>None\<close>.\<close>

record payload =
  p_fileId :: string
  p_status :: string
  p_pages :: "pyval option"
  p_errorMessage :: "string option"

text \<open>
  \<open>notify_node_update(file_id, status, pages, error_message)\<close>. \<open>post\<close> stands for
  \<open>requests.post\<close> followed by \<open>raise_for_status\<close>: it gives the response text or
  raises. The function catches every exception of the request; it returns its result
  and the payload it posted.
\<close>

definition notify_node_update ::
  "(payload \<Rightarrow> exn + string) \<Rightarrow> string \<Rightarrow> string \<Rightarrow> pyval option \<Rightarrow> string option \<Rightarrow>
     (bool \<times> string) \<times> payload" where
  "notify_node_update post file_id status pages error_message =
     (let p0 = \<lparr>p_fileId = file_id, p_status = status, p_pages = None, p_errorMessage = None\<rparr>;
          p1 = (if pages \<noteq> None then p0\<lparr>p_pages := pages\<rparr> else p0);
          p2 = (case error_message of
                  None \<Rightarrow> p1
                | Some msg \<Rightarrow> if msg \<noteq> [] then p1\<lparr>p_errorMessage := Some msg\<rparr> else p1)
      in case post p2 of
           Inr resp_text \<Rightarrow> ((True, resp_text), p2)
         | Inl e \<Rightarrow> ((False, str_exn e), p2))"

section \<open>rag_engine.py: ingest\<close>

record chunk_meta =
  md_fileId :: string
  md_chunkId :: nat
  md_text :: string
  md_source :: string

type_synonym 'v vector_record = "string \<times> 'v \<times> chunk_meta"

text \<open>What an ingest does to the outside world, in order.\<close>

datatype 'v event =
    Notified payload
  | Upserted "'v vector_record list"
  | Removed string

text \<open>
  The collaborators of an ingest and the two configuration values. Each collaborator
  returns its result or raises. \<open>embed_documents\<close> stands for \<open>get_embedder\<close>, the
  embedding call and \<open>tolist\<close> on each row.
\<close>

record 'v ingest_env =
  CHUNK_SIZE :: int
  CHUNK_OVERLAP :: int
  download_file :: "string \<Rightarrow> exn + string"
  extract_pdf_text :: "string \<Rightarrow> exn + string"
  embed_documents :: "string list \<Rightarrow> exn + 'v list"
  index_upsert :: "'v vector_record list \<Rightarrow> exn + unit"
  requests_post :: "payload \<Rightarrow> exn + string"
  os_remove :: "string \<Rightarrow> exn + unit"

record ingest_response =
  r_ok :: bool
  r_indexed_chunks :: "nat option"
  r_reason :: "string option"

text \<open>
  The loop over \<open>enumerate(vectors)\<close>; \<open>chunks[i]\<close> raises \<open>IndexError\<close> past the end
  of \<open>chunks\<close>.
\<close>

fun build_batch ::
  "string \<Rightarrow> string \<Rightarrow> string list \<Rightarrow> 'v list \<Rightarrow> nat \<Rightarrow> exn + 'v vector_record list" where
  "build_batch fileId originalName chunks [] i = Inr []"
| "build_batch fileId originalName chunks (vec # vecs) i =
     (if i < length chunks
      then (case build_batch fileId originalName chunks vecs (Suc i) of
              Inl e \<Rightarrow> Inl e
            | Inr rest \<Rightarrow>
                Inr ((fileId @ ''_'' @ str_nat i, vec,
                      \<lparr>md_fileId = fileId, md_chunkId = i, md_text = chunks ! i,
                       md_source = originalName\<rparr>) # rest))
      else Inl (Exception ''list index out of range''))"

text \<open>
  The batch upload, 100 records per call: the result of the loop and the batches that
  were stored before it ended.
\<close>

fun upsert_batches ::
  "('a list \<Rightarrow> exn + unit) \<Rightarrow> 'a list \<Rightarrow> (exn + unit) \<times> 'a list list" where
  "upsert_batches up batch =
     (if batch = [] then (Inr (), [])
      else (case up (take 100 batch) of
              Inl e \<Rightarrow> (Inl e, [])
            | Inr u \<Rightarrow>
                (case upsert_batches up (drop 100 batch) of
                   (r, stored) \<Rightarrow> (r, take 100 batch # stored))))"

declare upsert_batches.simps [simp del]

text \<open>
  The body of the \<open>try\<close> block of \<open>process_ingest\<close>: what it returns or raises, and
  the events up to that point. \<open>None\<close>: the chunker never returns. The \<open>print\<close>
  calls of the module are left out, here and below.
\<close>

definition process_ingest_body ::
  "'v ingest_env \<Rightarrow> string \<Rightarrow> string \<Rightarrow> string \<Rightarrow>
     ((exn + ingest_response) \<times> 'v event list) option" where
  "process_ingest_body env fileId fileUrl originalName =
     (case download_file env fileUrl of
        Inl e \<Rightarrow> Some (Inl e, [])
      | Inr local_path \<Rightarrow>
     (case extract_pdf_text env local_path of
        Inl e \<Rightarrow> Some (Inl e, [])
      | Inr text \<Rightarrow>
     if py_strip text = [] then
       (case notify_node_update (requests_post env) fileId ''failed''
               (Some (PyStr ''Empty text extracted'')) None of
          (r, p) \<Rightarrow>
            Some (Inr \<lparr>r_ok = False, r_indexed_chunks = None, r_reason = Some ''Empty text''\<rparr>,
                  [Notified p]))
     else
     (case chunk_text text (CHUNK_SIZE env) (CHUNK_OVERLAP env) of
        None \<Rightarrow> None
      | Some chunks \<Rightarrow>
     (case embed_documents env chunks of
        Inl e \<Rightarrow> Some (Inl e, [])
      | Inr vectors \<Rightarrow>
     (case build_batch fileId originalName chunks vectors 0 of
        Inl e \<Rightarrow> Some (Inl e, [])
      | Inr batch \<Rightarrow>
     (case upsert_batches (index_upsert env) batch of
        (Inl e, stored) \<Rightarrow> Some (Inl e, map Upserted stored)
      | (Inr u, stored) \<Rightarrow>
     (case notify_node_update (requests_post env) fileId ''indexed''
             (Some (PyInt (int (length chunks)))) None of
        (r, p) \<Rightarrow>
     (case os_remove env local_path of
        Inl e \<Rightarrow> Some (Inl e, map Upserted stored @ [Notified p])
      | Inr u' \<Rightarrow>
          Some (Inr \<lparr>r_ok = True, r_indexed_chunks = Some (length chunks), r_reason = None\<rparr>,
                map Upserted stored @ [Notified p, Removed local_path])))))))))"

text \<open>\<open>process_ingest\<close>: the body under its \<open>except Exception\<close> handler.\<close>

definition process_ingest ::
  "'v ingest_env \<Rightarrow> string \<Rightarrow> string \<Rightarrow> string \<Rightarrow>
     ((exn + ingest_response) \<times> 'v event list) option" where
  "process_ingest env fileId fileUrl originalName =
     (case process_ingest_body env fileId fileUrl originalName of
        None \<Rightarrow> None
      | Some (Inr resp, evs) \<Rightarrow> Some (Inr resp, evs)
      | Some (Inl e, evs) \<Rightarrow>
          (case notify_node_update (requests_post env) fileId ''failed''
                  (Some (PyStr (str_exn e))) None of
             (r, p) \<Rightarrow>
               Some (Inr \<lparr>r_ok = False, r_indexed_chunks = None, r_reason = Some (str_exn e)\<rparr>,
                     evs @ [Notified p])))"

text \<open>The notifications among the events of a run.\<close>

fun notifications :: "'v event list \<Rightarrow> payload list" where
  "notifications [] = []"
| "notifications (Notified p # evs) = p # notifications evs"
| "notifications (ev # evs) = notifications evs"

section \<open>rag_engine.py: answer\<close>

text \<open>
  A match of the index query: a dictionary that may lack the keys \<open>metadata\<close> and
  \<open>score\<close>. The metadata is a dictionary of its own.
\<close>

record match =
  m_metadata :: "(string \<rightharpoonup> pyval) option"
  m_score :: "rat option"

record source =
  s_fileId :: pyval
  s_chunkId :: pyval
  s_score :: rat
  s_source :: pyval

record answer_payload =
  a_answer :: string
  a_sources :: "source list"
  a_chunks_used :: "nat option"
  a_error :: "string option"

text \<open>
  The collaborators of a query. \<open>embed_query\<close> stands for \<open>get_embedder\<close>, the
  embedding call and \<open>tolist\<close>; \<open>index_query\<close> gives the value under the key
  \<open>matches\<close> of the result, if any; \<open>chat_completion\<close> takes the user prompt and gives
  \<open>response.choices[0].message.content\<close>, which may be \<open>None\<close>; \<open>round4\<close> is
  \<open>round(score, 4)\<close>.
\<close>

record 'v answer_env =
  embed_query :: "string \<Rightarrow> exn + 'v"
  index_query :: "'v \<Rightarrow> int \<Rightarrow> exn + match list option"
  chat_completion :: "string \<Rightarrow> exn + string option"
  round4 :: "rat \<Rightarrow> rat"

definition nl :: string where
  "nl = [CHR 0x0A]"

definition format_fallback_answer :: "string \<Rightarrow> string \<Rightarrow> string" where
  "format_fallback_answer context query =
     (let summary = (if length context > 500 then take 500 context @ ''...'' else context)
      in ''**Answer to: '' @ query @ ''**'' @ nl @ nl @
         ''Based on the retrieved documents:'' @ nl @ nl @
         summary @ nl @ nl @
         ''*Note: This is a direct extract from your documents. For a more refined answer, please check the system logs.*'')"

definition build_prompt :: "string \<Rightarrow> string \<Rightarrow> string" where
  "build_prompt context query =
     ''You are a helpful AI assistant that answers questions based on provided documents.'' @ nl @ nl @
     ''CONTEXT FROM DOCUMENTS:'' @ nl @
     context @ nl @ nl @
     ''USER QUESTION: '' @ query @ nl @ nl @
     ''INSTRUCTIONS:'' @ nl @
     ''1. Read the context carefully and provide a clear, well-structured answer'' @ nl @
     ''2. Use ONLY information from the context provided'' @ nl @
     ''3. Format your response with:'' @ nl @
     ''   - A brief direct answer first'' @ nl @
     ''   - Key points in bullet format if applicable'' @ nl @
     ''   - Clear explanations'' @ nl @
     ''4. If the context doesn't contain enough information, say so clearly'' @ nl @
     ''5. Do NOT make up or hallucinate any information'' @ nl @
     ''6. Be concise but comprehensive'' @ nl @ nl @
     ''Please provide a well-formatted answer:''"

text \<open>
  The body of the \<open>try\<close> block of \<open>generate_llm_answer\<close>: what it returns or raises,
  and the prompts it sent to the language model.
\<close>

definition generate_llm_answer_body ::
  "(string \<Rightarrow> exn + string option) \<Rightarrow> string \<Rightarrow> string \<Rightarrow> (exn + string) \<times> string list" where
  "generate_llm_answer_body chat context query =
     (if context = [] \<or> py_strip context = [] then
        (Inr ''I couldn't find any relevant information in the documents to answer your question.'', [])
      else
        (let prompt = build_prompt context query in
         case chat prompt of
           Inl e \<Rightarrow> (Inl e, [prompt])
         | Inr content \<Rightarrow>
             (case content of
                None \<Rightarrow> (Inr (format_fallback_answer context query), [prompt])
              | Some answer \<Rightarrow>
                  if answer = [] \<or> length (py_strip answer) < 10
                  then (Inr (format_fallback_answer context query), [prompt])
                  else (Inr answer, [prompt]))))"

definition generate_llm_answer ::
  "(string \<Rightarrow> exn + string option) \<Rightarrow> string \<Rightarrow> string \<Rightarrow> string \<times> string list" where
  "generate_llm_answer chat context query =
     (case generate_llm_answer_body chat context query of
        (Inr a, prompts) \<Rightarrow> (a, prompts)
      | (Inl e, prompts) \<Rightarrow> (format_fallback_answer context query, prompts))"

text \<open>\<open>d.get(key, default)\<close>.\<close>

definition dict_get :: "(string \<rightharpoonup> pyval) \<Rightarrow> string \<Rightarrow> pyval \<Rightarrow> pyval" where
  "dict_get d key dflt = (case d key of None \<Rightarrow> dflt | Some v \<Rightarrow> v)"

text \<open>\<open>m.get("metadata", {})\<close> and \<open>m.get("score", 0)\<close>.\<close>

definition match_meta :: "match \<Rightarrow> (string \<rightharpoonup> pyval)" where
  "match_meta m = (case m_metadata m of None \<Rightarrow> Map.empty | Some d \<Rightarrow> d)"

definition match_score :: "match \<Rightarrow> rat" where
  "match_score m = (case m_score m of None \<Rightarrow> 0 | Some s \<Rightarrow> s)"

text \<open>
  The loop over the matches, with the two lists it appends to. The literal \<open>0.3\<close> is
  the number 3/10: a score is a \<open>float\<close> or an \<open>int\<close>, and among those the ones above the
  \<open>float\<close> written \<open>0.3\<close> are the ones above 3/10.
\<close>

fun collect_matches ::
  "(rat \<Rightarrow> rat) \<Rightarrow> match list \<Rightarrow> pyval list \<Rightarrow> source list \<Rightarrow> pyval list \<times> source list" where
  "collect_matches rnd [] contexts srcs = (contexts, srcs)"
| "collect_matches rnd (m # ms) contexts srcs =
     (let meta = match_meta m;
          score = match_score m
      in if score > 3 / 10
         then collect_matches rnd ms
                (contexts @ [dict_get meta ''text'' (PyStr [])])
                (srcs @ [\<lparr>s_fileId = dict_get meta ''fileId'' PyNone,
                          s_chunkId = dict_get meta ''chunkId'' PyNone,
                          s_score = rnd score,
                          s_source = dict_get meta ''source'' (PyStr ''Unknown'')\<rparr>])
         else collect_matches rnd ms contexts srcs)"

text \<open>What the loop appends for a match it keeps.\<close>

definition match_text :: "match \<Rightarrow> pyval" where
  "match_text m = dict_get (match_meta m) ''text'' (PyStr [])"

definition match_source :: "(rat \<Rightarrow> rat) \<Rightarrow> match \<Rightarrow> source" where
  "match_source rnd m =
     \<lparr>s_fileId = dict_get (match_meta m) ''fileId'' PyNone,
      s_chunkId = dict_get (match_meta m) ''chunkId'' PyNone,
      s_score = rnd (match_score m),
      s_source = dict_get (match_meta m) ''source'' (PyStr ''Unknown'')\<rparr>"

definition context_separator :: string where
  "context_separator = nl @ nl @ ''---'' @ nl @ nl"

text \<open>
  The body of the \<open>try\<close> block of \<open>process_answer\<close>: what it returns or raises, and
  the prompts sent to the language model.
\<close>

definition process_answer_body ::
  "'v answer_env \<Rightarrow> string \<Rightarrow> int \<Rightarrow> (exn + answer_payload) \<times> string list" where
  "process_answer_body env query top_k =
     (case embed_query env query of
        Inl e \<Rightarrow> (Inl e, [])
      | Inr qvec \<Rightarrow>
     (case index_query env qvec top_k of
        Inl e \<Rightarrow> (Inl e, [])
      | Inr results \<Rightarrow>
     (let matches = (case results of None \<Rightarrow> [] | Some ms \<Rightarrow> ms) in
      if matches = [] then
        (Inr \<lparr>a_answer = ''I couldn't find any relevant information in your documents to answer this question. Please make sure documents are uploaded and indexed.'',
              a_sources = [], a_chunks_used = None, a_error = None\<rparr>, [])
      else
     (case collect_matches (round4 env) matches [] [] of
        (contexts, srcs) \<Rightarrow>
      if contexts = [] then
        (Inr \<lparr>a_answer = ''The retrieved documents don't seem relevant enough to answer your question confidently.'',
              a_sources = srcs, a_chunks_used = None, a_error = None\<rparr>, [])
      else
     (case py_join context_separator (take 3 contexts) of
        Inl e \<Rightarrow> (Inl e, [])
      | Inr combined_context \<Rightarrow>
     (case generate_llm_answer (chat_completion env) combined_context query of
        (final_answer, prompts) \<Rightarrow>
          (Inr \<lparr>a_answer = final_answer, a_sources = srcs,
                a_chunks_used = Some (length contexts), a_error = None\<rparr>, prompts)))))))"

text \<open>\<open>process_answer\<close>: the body under its \<open>except Exception\<close> handler.\<close>

definition process_answer ::
  "'v answer_env \<Rightarrow> string \<Rightarrow> int \<Rightarrow> (exn + answer_payload) \<times> string list" where
  "process_answer env query top_k =
     (case process_answer_body env query top_k of
        (Inr p, prompts) \<Rightarrow> (Inr p, prompts)
      | (Inl e, prompts) \<Rightarrow>
          (Inr \<lparr>a_answer = ''An error occurred while processing your question: '' @ str_exn e,
                a_sources = [], a_chunks_used = None, a_error = Some (str_exn e)\<rparr>, prompts))"

section \<open>Concrete runs\<close>

text \<open>
  Collaborators for concrete runs: a query whose search gives \<open>results\<close> and whose
  language model is \<open>chat\<close>, and an ingest of a three-word document whose cleanup is
  \<open>remove\<close>.
\<close>

definition demo_answer_env ::
  "match list option \<Rightarrow> (string \<Rightarrow> exn + string option) \<Rightarrow> unit answer_env" where
  "demo_answer_env results chat =
     \<lparr>embed_query = (\<lambda>q. Inr ()), index_query = (\<lambda>v k. Inr results),
      chat_completion = chat, round4 = (\<lambda>s. s)\<rparr>"

definition demo_answer_down :: "unit answer_env" where
  "demo_answer_down =
     \<lparr>embed_query = (\<lambda>q. Inl (Exception ''model not loaded'')),
      index_query = (\<lambda>v k. Inr None),
      chat_completion = (\<lambda>prompt. Inr None), round4 = (\<lambda>s. s)\<rparr>"

definition demo_match :: "string \<Rightarrow> rat \<Rightarrow> match" where
  "demo_match txt score =
     \<lparr>m_metadata = Some [''text'' \<mapsto> PyStr txt, ''source'' \<mapsto> PyStr ''doc.pdf''],
      m_score = Some score\<rparr>"

definition demo_four :: "match list" where
  "demo_four = [demo_match ''c1'' (9 / 10), demo_match ''c2'' (4 / 5),
                demo_match ''c3'' (7 / 10), demo_match ''c4'' (3 / 5)]"

definition demo_three_of_four :: "match list" where
  "demo_three_of_four = [demo_match ''c1'' (9 / 10), demo_match ''c2'' (1 / 5),
                         demo_match ''c3'' (4 / 5), demo_match ''c4'' (7 / 10)]"

definition demo_chat :: "string \<Rightarrow> exn + string option" where
  "demo_chat prompt = Inr (Some ''The documents say so.'')"

definition demo_padded_chat :: "string \<Rightarrow> exn + string option" where
  "demo_padded_chat prompt = Inr (Some ''ok          '')"

definition demo_failing_chat :: "string \<Rightarrow> exn + string option" where
  "demo_failing_chat prompt = Inl (Exception ''rate limit'')"

definition demo_remove_ok :: "string \<Rightarrow> exn + unit" where
  "demo_remove_ok path = Inr ()"

definition demo_remove_fails :: "string \<Rightarrow> exn + unit" where
  "demo_remove_fails path = Inl (Exception ''Permission denied'')"

definition demo_ingest_env ::
  "int \<Rightarrow> int \<Rightarrow> (string \<Rightarrow> exn + unit) \<Rightarrow> unit ingest_env" where
  "demo_ingest_env csize coverlap remove =
     \<lparr>CHUNK_SIZE = csize, CHUNK_OVERLAP = coverlap,
      download_file = (\<lambda>url. Inr ''/tmp/doc.pdf''),
      extract_pdf_text = (\<lambda>path. Inr ''a b c''),
      embed_documents = (\<lambda>chunks. Inr (map (\<lambda>c. ()) chunks)),
      index_upsert = (\<lambda>batch. Inr ()),
      requests_post = (\<lambda>p. Inr ''ok''),
      os_remove = remove\<rparr>"

section \<open>Splitting and joining\<close>

lemma isspace_space: "isspace CHR '' ''"
  by (simp add: isspace_def)

lemma split_from_tokens:
  "\<forall>c\<in>set cur. \<not> isspace c \<Longrightarrow> t \<in> set (split_from cur s) \<Longrightarrow>
     t \<noteq> [] \<and> (\<forall>c\<in>set t. \<not> isspace c)"
proof (induction cur s rule: split_from.induct)
  case (1 cur)
  then show ?case by (simp split: if_splits)
next
  case (2 cur c cs)
  show ?case
  proof (cases "isspace c")
    case True
    show ?thesis
    proof (cases "cur = []")
      case e: True
      with True 2(1) 2(5) show ?thesis by simp
    next
      case e: False
      with True 2(5) have "t = cur \<or> t \<in> set (split_from [] cs)" by simp
      then show ?thesis
      proof
        assume "t = cur"
        with e 2(4) show ?thesis by simp
      next
        assume "t \<in> set (split_from [] cs)"
        with True e 2(2) show ?thesis by simp
      qed
    qed
  next
    case False
    with 2(5) have "t \<in> set (split_from (cur @ [c]) cs)" by simp
    moreover have "\<forall>c\<in>set (cur @ [c]). \<not> isspace c" using False 2(4) by simp
    ultimately show ?thesis using 2(3) [OF False] by blast
  qed
qed

lemma py_split_tokens:
  "t \<in> set (py_split s) \<Longrightarrow> t \<noteq> [] \<and> (\<forall>c\<in>set t. \<not> isspace c)"
  unfolding py_split_def using split_from_tokens [of "[]" t s] by simp

lemma split_from_word:
  "\<forall>c\<in>set w. \<not> isspace c \<Longrightarrow> split_from cur (w @ rest) = split_from (cur @ w) rest"
  by (induction w arbitrary: cur) simp_all

lemma split_from_token_end:
  assumes "w \<noteq> []" and "\<forall>c\<in>set w. \<not> isspace c"
  shows "split_from [] w = [w]"
proof -
  have "split_from [] (w @ []) = split_from ([] @ w) []"
    using assms(2) by (rule split_from_word)
  then have "split_from [] w = split_from w []"
    by (simp only: append_Nil append_Nil2)
  also have "\<dots> = [w]" using assms(1) by simp
  finally show ?thesis .
qed

lemma split_from_token_sep:
  assumes "w \<noteq> []" and "\<forall>c\<in>set w. \<not> isspace c"
  shows "split_from [] (w @ CHR '' '' # rest) = w # split_from [] rest"
proof -
  have "split_from [] (w @ CHR '' '' # rest) = split_from ([] @ w) (CHR '' '' # rest)"
    using assms(2) by (rule split_from_word)
  also have "\<dots> = w # split_from [] rest"
    using assms(1) by (simp add: isspace_space)
  finally show ?thesis .
qed

lemma py_split_join:
  "\<forall>t\<in>set ts. t \<noteq> [] \<and> (\<forall>c\<in>set t. \<not> isspace c) \<Longrightarrow> py_split (join '' '' ts) = ts"
proof (induction ts rule: induct_list012)
  case 1
  show ?case by (simp add: py_split_def)
next
  case (2 x)
  then show ?case by (simp add: py_split_def split_from_token_end)
next
  case (3 x y ys)
  have x: "x \<noteq> []" "\<forall>c\<in>set x. \<not> isspace c" using 3(3) by simp_all
  have "py_split (join '' '' (y # ys)) = y # ys" using 3(2) 3(3) by simp
  then have "split_from [] (join '' '' (y # ys)) = y # ys" by (simp only: py_split_def)
  moreover have "join '' '' (x # y # ys) = x @ CHR '' '' # join '' '' (y # ys)" by simp
  ultimately show ?case
    by (simp only: py_split_def split_from_token_sep [OF x])
qed

section \<open>The chunking loop\<close>

lemma chunk_loop_Some_progress:
  assumes r: "chunk_loop tokens chunk_size chunk_overlap i chunks = Some r"
  shows "\<not> (chunk_size \<le> chunk_overlap \<and> i < int (length tokens))"
  apply (rule chunk_loop.raw_induct
      [where P = "\<lambda>tokens cs co i chunks r. \<not> (cs \<le> co \<and> i < int (length tokens))", OF _ r])
  subgoal premises prems for loop tokens cs co i chunks y
    using prems(1) [of tokens cs co "i + (cs - co)"
        "chunks @ [join '' '' (py_slice tokens i (i + cs))]" y] prems(2)
    by (auto split: if_splits)
  done

lemma chunk_loop_diverges:
  assumes "chunk_size \<le> chunk_overlap" and "i < int (length tokens)"
  shows "chunk_loop tokens chunk_size chunk_overlap i chunks = None"
proof (cases "chunk_loop tokens chunk_size chunk_overlap i chunks")
  case None
  then show ?thesis .
next
  case (Some r)
  from chunk_loop_Some_progress[OF this] assms show ?thesis by simp
qed

lemma py_slice_window:
  assumes "0 \<le> i" and "0 \<le> s"
  shows "py_slice xs i (i + s) = take (nat s) (drop (nat i) xs)"
proof -
  have e: "nat (i + s) - nat i = nat s" using assms by linarith
  show ?thesis
  proof (cases "i + s \<le> int (length xs)")
    case True
    with assms e show ?thesis
      by (simp add: py_slice_def Let_def min_def)
  next
    case False
    show ?thesis
    proof (cases "i \<le> int (length xs)")
      case True
      have "nat (int (length xs)) - nat i = length xs - nat i" by simp
      moreover have "length xs - nat i \<le> nat s" using False assms by linarith
      ultimately show ?thesis using assms False True
        by (simp add: py_slice_def Let_def min_def)
    next
      case False
      with assms show ?thesis
        by (simp add: py_slice_def Let_def min_def)
    qed
  qed
qed

lemma chunk_loop_Some:
  assumes d: "chunk_overlap < chunk_size"
  shows "chunk_loop tokens chunk_size chunk_overlap i chunks =
     Some (chunks @ map (\<lambda>k. join '' '' (py_slice tokens (i + int k * (chunk_size - chunk_overlap))
                                   (i + int k * (chunk_size - chunk_overlap) + chunk_size)))
              [0..<nat (- ((i - int (length tokens)) div (chunk_size - chunk_overlap)))])"
proof (induction "nat (int (length tokens) - i)" arbitrary: i chunks rule: less_induct)
  case less
  let ?d = "chunk_size - chunk_overlap"
  let ?N = "int (length tokens)"
  have dpos: "0 < ?d" using d by simp
  show ?case
  proof (cases "i < ?N")
    case False
    then have "0 \<le> (i - ?N) div ?d" using dpos by (simp add: pos_imp_zdiv_nonneg_iff)
    then have "nat (- ((i - ?N) div ?d)) = 0" by simp
    moreover have "chunk_loop tokens chunk_size chunk_overlap i chunks = Some chunks"
      using False by (subst chunk_loop.simps) simp
    ultimately show ?thesis by simp
  next
    case True
    have "(i - ?N + ?d) div ?d = (i - ?N) div ?d + 1"
      using dpos by simp
    moreover have "i - ?N + ?d = i + ?d - ?N" by simp
    ultimately have step: "(i + ?d - ?N) div ?d = (i - ?N) div ?d + 1"
      by (simp only:)
    have neg: "(i - ?N) div ?d < 0"
      using True dpos by (simp add: pos_imp_zdiv_neg_iff)
    have cnt: "nat (- ((i - ?N) div ?d)) = Suc (nat (- ((i + ?d - ?N) div ?d)))"
      using step neg by linarith
    have lt: "nat (?N - (i + ?d)) < nat (?N - i)" using True dpos by linarith
    have unf: "chunk_loop tokens chunk_size chunk_overlap i chunks =
        chunk_loop tokens chunk_size chunk_overlap (i + ?d)
          (chunks @ [join '' '' (py_slice tokens i (i + chunk_size))])"
      using True by (subst chunk_loop.simps) (simp only: if_True)
    have shift: "map (\<lambda>k. join '' '' (py_slice tokens (i + int k * ?d) (i + int k * ?d + chunk_size)))
           [0..<Suc n] =
         join '' '' (py_slice tokens i (i + chunk_size)) #
         map (\<lambda>k. join '' '' (py_slice tokens (i + ?d + int k * ?d) (i + ?d + int k * ?d + chunk_size)))
           [0..<n]" for n
    proof -
      have "[0..<Suc n] = 0 # map Suc [0..<n]"
        by (simp only: map_Suc_upt upt_conv_Cons [of 0 "Suc n"] zero_less_Suc if_True)
      moreover have "i + int (Suc k) * ?d = i + ?d + int k * ?d" for k
        by (simp add: algebra_simps)
      ultimately show ?thesis
        by (simp only: list.map map_map o_def) simp
    qed
    show ?thesis
      unfolding unf less(1)[OF lt] cnt shift by simp
  qed
qed

text \<open>The number of windows and the window at each index.\<close>

lemma window_count:
  assumes "0 < d"
  shows "nat (- ((- int n) div d)) = nat \<lceil>real n / real_of_int d\<rceil>"
proof -
  have "\<lceil>real_of_int (int n) / real_of_int d\<rceil> = - ((- int n) div d)"
    by (rule ceiling_divide_eq_div)
  then show ?thesis by simp
qed

lemma window_index:
  assumes "0 < d"
  shows "k < nat \<lceil>real n / real_of_int d\<rceil> \<longleftrightarrow> k * nat d < n"
proof -
  have "k < nat \<lceil>real n / real_of_int d\<rceil> \<longleftrightarrow> int k < \<lceil>real n / real_of_int d\<rceil>"
    by linarith
  also have "\<dots> \<longleftrightarrow> real_of_int (int k) < real n / real_of_int d"
    by (rule less_ceiling_iff)
  also have "\<dots> \<longleftrightarrow> real_of_int (int k) * real_of_int d < real n"
    using assms by (simp add: pos_less_divide_eq)
  also have "\<dots> \<longleftrightarrow> real_of_int (int k * d) < real_of_int (int n)"
    by simp
  also have "\<dots> \<longleftrightarrow> int k * d < int n"
    by (rule of_int_less_iff)
  also have "\<dots> \<longleftrightarrow> int (k * nat d) < int n"
  proof -
    have "int (k * nat d) = int k * d" using assms by simp
    then show ?thesis by (simp only:)
  qed
  also have "\<dots> \<longleftrightarrow> k * nat d < n"
    by (rule of_nat_less_iff)
  finally show ?thesis .
qed

lemma chunk_text_windows:
  assumes "0 \<le> chunk_overlap" and "chunk_overlap < chunk_size"
  shows "chunk_text s chunk_size chunk_overlap =
     Some (map (\<lambda>k. join '' '' (take (nat chunk_size)
                   (drop (k * nat (chunk_size - chunk_overlap)) (py_split s))))
             [0..<nat \<lceil>real (length (py_split s)) / real_of_int (chunk_size - chunk_overlap)\<rceil>])"
proof -
  let ?d = "chunk_size - chunk_overlap"
  let ?ts = "py_split s"
  have dpos: "0 < ?d" using assms by simp
  have win: "py_slice ?ts (0 + int k * ?d) (0 + int k * ?d + chunk_size) =
      take (nat chunk_size) (drop (k * nat ?d) ?ts)" for k
  proof -
    have "nat (int k * ?d) = k * nat ?d"
      using dpos by (simp add: nat_mult_distrib)
    moreover have "py_slice ?ts (int k * ?d) (int k * ?d + chunk_size) =
        take (nat chunk_size) (drop (nat (int k * ?d)) ?ts)"
      using assms dpos by (intro py_slice_window) simp_all
    ultimately show ?thesis by simp
  qed
  have loop: "chunk_loop ?ts chunk_size chunk_overlap 0 [] =
      Some (map (\<lambda>k. join '' '' (take (nat chunk_size) (drop (k * nat ?d) ?ts)))
             [0..<nat \<lceil>real (length ?ts) / real_of_int ?d\<rceil>])"
    unfolding chunk_loop_Some [OF assms(2)] win
    using window_count [OF dpos, of "length ?ts"] by simp
  show ?thesis
  proof (cases "?ts = []")
    case True
    then show ?thesis by (simp add: chunk_text_def)
  next
    case False
    then have "s \<noteq> []" by (auto simp: py_split_def)
    with False loop show ?thesis by (simp add: chunk_text_def Let_def)
  qed
qed

lemma chunk_text_diverges:
  assumes "py_split s \<noteq> []" and "chunk_size \<le> chunk_overlap"
  shows "chunk_text s chunk_size chunk_overlap = None"
proof -
  from assms(1) have "s \<noteq> []" by (auto simp: py_split_def)
  moreover have "chunk_loop (py_split s) chunk_size chunk_overlap 0 [] = None"
    using assms by (intro chunk_loop_diverges) simp_all
  ultimately show ?thesis using assms(1) by (simp add: chunk_text_def)
qed

section \<open>Properties of the chunker\<close>

lemma window_roundtrip:
  "py_split (join '' '' (take n (drop m (py_split s)))) = take n (drop m (py_split s))"
proof (rule py_split_join, rule ballI)
  fix t assume "t \<in> set (take n (drop m (py_split s)))"
  then have "t \<in> set (py_split s)"
    by (meson in_set_takeD in_set_dropD)
  then show "t \<noteq> [] \<and> (\<forall>c\<in>set t. \<not> isspace c)"
    by (rule py_split_tokens)
qed

lemma py_split_Nil: "py_split [] = []"
  by (simp add: py_split_def)

text \<open>
  C3. With \<open>chunk_overlap \<ge> chunk_size\<close> the chunker raises nothing: on a text without
  tokens it returns the empty list, on every other text it never returns.
\<close>

theorem chunk_text_overlap_ge_size:
  assumes "chunk_size \<le> chunk_overlap"
  shows "chunk_text s chunk_size chunk_overlap = (if py_split s = [] then Some [] else None)"
proof (cases "py_split s = []")
  case True
  then show ?thesis by (simp add: chunk_text_def)
next
  case False
  then have "s \<noteq> []" by (auto simp: py_split_def)
  moreover have "chunk_loop (py_split s) chunk_size chunk_overlap 0 [] = None"
    using assms False by (intro chunk_loop_diverges) simp_all
  ultimately show ?thesis using False by (simp add: chunk_text_def)
qed

theorem chunk_text_overlap_ge_size_witness:
  "(1::int) \<le> 1 \<and> chunk_text ''a'' 1 1 = None"
proof -
  have "py_split ''a'' = [''a'']" by (simp add: py_split_def isspace_def)
  then show ?thesis using chunk_text_overlap_ge_size [of 1 1 "''a''"] by simp
qed

text \<open>
  C9. For \<open>chunk_size > chunk_overlap \<ge> 0\<close> the chunker returns, and every chunk it
  returns is a non-empty string holding at least one token.
\<close>

theorem chunk_text_chunks_nonempty:
  assumes "1 \<le> chunk_size" and "0 \<le> chunk_overlap" and "chunk_overlap < chunk_size"
  shows "\<exists>chunks. chunk_text s chunk_size chunk_overlap = Some chunks \<and>
           (\<forall>c\<in>set chunks. c \<noteq> [] \<and> py_split c \<noteq> [])"
proof -
  let ?d = "chunk_size - chunk_overlap"
  let ?ts = "py_split s"
  let ?w = "\<lambda>k. take (nat chunk_size) (drop (k * nat ?d) ?ts)"
  let ?n = "nat \<lceil>real (length ?ts) / real_of_int ?d\<rceil>"
  have dpos: "0 < ?d" using assms by simp
  have eq: "chunk_text s chunk_size chunk_overlap = Some (map (\<lambda>k. join '' '' (?w k)) [0..<?n])"
    using assms(2,3) by (rule chunk_text_windows)
  have "c \<noteq> [] \<and> py_split c \<noteq> []" if "c \<in> set (map (\<lambda>k. join '' '' (?w k)) [0..<?n])" for c
  proof -
    from that obtain k where k: "k < ?n" and c: "c = join '' '' (?w k)" by auto
    from k have "k * nat ?d < length ?ts" by (simp only: window_index [OF dpos])
    then have "?w k \<noteq> []" using assms(1) by simp
    moreover have "py_split c = ?w k" unfolding c by (rule window_roundtrip)
    ultimately have "py_split c \<noteq> []" by simp
    then show ?thesis using py_split_Nil by auto
  qed
  with eq show ?thesis by blast
qed

theorem chunk_text_chunks_nonempty_witness:
  "(1::int) \<le> 2 \<and> (0::int) \<le> 1 \<and> (1::int) < 2 \<and>
   (\<exists>chunks. chunk_text ''a b c'' 2 1 = Some chunks \<and>
      (\<forall>c\<in>set chunks. c \<noteq> [] \<and> py_split c \<noteq> []))"
  using chunk_text_chunks_nonempty [of 2 1 "''a b c''"] by simp

lemma chunk_text_abcd:
  "chunk_text ''a b c d'' 3 2 = Some [''a b c'', ''b c d'', ''c d'', ''d'']"
  by code_simp

lemma chunk_text_abc:
  "chunk_text ''a b c'' 2 1 = Some [''a b'', ''b c'', ''c'']"
  by code_simp

lemma py_split_abcd: "py_split ''a b c d'' = [''a'', ''b'', ''c'', ''d'']"
  by (simp add: py_split_def isspace_def)

lemma py_split_abc: "py_split ''a b c'' = [''a'', ''b'', ''c'']"
  by (simp add: py_split_def isspace_def)

text \<open>
  C1 (as amended). For a text with tokens \<open>tokens\<close> and \<open>chunk_size > chunk_overlap \<ge> 0\<close>
  the chunker returns one window per index \<open>k\<close> whose start
  \<open>k * (chunk_size - chunk_overlap)\<close> lies before the end of the tokens, and no other;
  window \<open>k\<close> is the chunk of the tokens from its start, \<open>chunk_size\<close> of them or as
  many as remain, so a window whose start is at most \<open>chunk_size\<close> before the end is
  full and every later one is shorter.
\<close>

theorem chunk_text_sliding_windows:
  assumes "py_split s = tokens" and "tokens \<noteq> []"
    and "0 \<le> chunk_overlap" and "chunk_overlap < chunk_size"
  shows "\<exists>chunks. chunk_text s chunk_size chunk_overlap = Some chunks \<and>
     (\<forall>k. k < length chunks \<longleftrightarrow> k * nat (chunk_size - chunk_overlap) < length tokens) \<and>
     (\<forall>k<length chunks.
        chunks ! k = join '' '' (take (nat chunk_size)
                       (drop (k * nat (chunk_size - chunk_overlap)) tokens)) \<and>
        py_split (chunks ! k) =
          take (nat chunk_size) (drop (k * nat (chunk_size - chunk_overlap)) tokens) \<and>
        length (py_split (chunks ! k)) =
          min (nat chunk_size) (length tokens - k * nat (chunk_size - chunk_overlap)))"
proof -
  let ?d = "chunk_size - chunk_overlap"
  let ?w = "\<lambda>k. take (nat chunk_size) (drop (k * nat ?d) tokens)"
  let ?n = "nat \<lceil>real (length tokens) / real_of_int ?d\<rceil>"
  let ?chunks = "map (\<lambda>k. join '' '' (?w k)) [0..<?n]"
  have dpos: "0 < ?d" using assms by simp
  have eq: "chunk_text s chunk_size chunk_overlap = Some ?chunks"
    using chunk_text_windows [OF assms(3,4), of s] by (simp only: assms(1))
  have len: "length ?chunks = ?n" by simp
  have idx: "k < length ?chunks \<longleftrightarrow> k * nat ?d < length tokens" for k
    by (simp only: len window_index [OF dpos])
  have nth: "?chunks ! k = join '' '' (?w k)" if "k < length ?chunks" for k
    using that by simp
  have rt: "py_split (join '' '' (?w k)) = ?w k" for k
    using window_roundtrip [of "nat chunk_size" "k * nat ?d" s] by (simp only: assms(1))
  have wl: "length (?w k) = min (nat chunk_size) (length tokens - k * nat ?d)" for k
    by (simp add: min.commute)
  have "\<forall>k<length ?chunks.
        ?chunks ! k = join '' '' (?w k) \<and> py_split (?chunks ! k) = ?w k \<and>
        length (py_split (?chunks ! k)) = min (nat chunk_size) (length tokens - k * nat ?d)"
  proof (intro allI impI)
    fix k assume k: "k < length ?chunks"
    have "py_split (?chunks ! k) = ?w k" by (simp only: nth [OF k] rt)
    moreover from this have "length (py_split (?chunks ! k)) =
        min (nat chunk_size) (length tokens - k * nat ?d)"
      by (simp only: wl)
    ultimately show "?chunks ! k = join '' '' (?w k) \<and> py_split (?chunks ! k) = ?w k \<and>
        length (py_split (?chunks ! k)) = min (nat chunk_size) (length tokens - k * nat ?d)"
      using nth [OF k] by (intro conjI)
  qed
  with eq idx show ?thesis by blast
qed

theorem chunk_text_sliding_windows_witness:
  "py_split ''a b c d'' = [''a'', ''b'', ''c'', ''d''] \<and> [''a'', ''b'', ''c'', ''d''] \<noteq> [] \<and>
   (0::int) \<le> 2 \<and> (2::int) < 3 \<and>
   (\<exists>chunks. chunk_text ''a b c d'' 3 2 = Some chunks \<and>
     (\<forall>k. k < length chunks \<longleftrightarrow> k * nat (3 - 2) < length [''a'', ''b'', ''c'', ''d'']) \<and>
     (\<forall>k<length chunks.
        chunks ! k = join '' '' (take (nat 3) (drop (k * nat (3 - 2)) [''a'', ''b'', ''c'', ''d''])) \<and>
        py_split (chunks ! k) = take (nat 3) (drop (k * nat (3 - 2)) [''a'', ''b'', ''c'', ''d'']) \<and>
        length (py_split (chunks ! k)) =
          min (nat 3) (length [''a'', ''b'', ''c'', ''d''] - k * nat (3 - 2))))"
proof -
  have h1: "py_split ''a b c d'' = [''a'', ''b'', ''c'', ''d'']" by (rule py_split_abcd)
  have h2: "[''a'', ''b'', ''c'', ''d''] \<noteq> []" by simp
  have h3: "(0::int) \<le> 2" and h4: "(2::int) < 3" by simp_all
  from chunk_text_sliding_windows [OF h1 h2 h3 h4] h1 h2 h3 h4 show ?thesis by blast
qed

theorem chunk_text_short_window_counterexample:
  "chunk_text ''a b c d'' 3 2 = Some [''a b c'', ''b c d'', ''c d'', ''d''] \<and>
   length (py_split ([''a b c'', ''b c d'', ''c d'', ''d''] ! 2)) = 2"
  using chunk_text_abcd by (simp add: py_split_def isspace_def)

text \<open>
  C2 (as amended). For \<open>chunk_size > chunk_overlap \<ge> 0\<close> the number of chunks is the
  number of tokens divided by the stride \<open>chunk_size - chunk_overlap\<close>, rounded up.
\<close>

theorem chunk_text_count:
  assumes "0 \<le> chunk_overlap" and "chunk_overlap < chunk_size"
  shows "map_option length (chunk_text s chunk_size chunk_overlap) =
     Some (nat \<lceil>real (length (py_split s)) / real_of_int (chunk_size - chunk_overlap)\<rceil>)"
  by (simp add: chunk_text_windows [OF assms])

theorem chunk_text_count_witness:
  "(0::int) \<le> 1 \<and> (1::int) < 2 \<and> map_option length (chunk_text ''a b c'' 2 1) = Some 3"
  using chunk_text_count [of 1 2 "''a b c''"] by (simp add: py_split_abc)

theorem chunk_text_count_counterexample:
  "map_option length (chunk_text ''a b c'' 2 1) = Some 3 \<and>
   nat \<lceil>real_of_int (max (int (length (py_split ''a b c'')) - 1) 0) / real_of_int (2 - 1)\<rceil> = 2"
  by (simp add: chunk_text_abc py_split_abc)

lemma chunk_text_scenario_A:
  assumes "length (py_split s) = 1200"
  shows "chunk_text s 500 50 =
     Some [join '' '' (take 500 (py_split s)),
           join '' '' (take 500 (drop 450 (py_split s))),
           join '' '' (drop 900 (py_split s))]"
proof -
  have n: "nat \<lceil>real (length (py_split s)) / real_of_int (500 - 50)\<rceil> = 3"
    by (simp add: assms)
  have l: "[0..<3] = [0, 1, 2]" by (simp add: upt_rec)
  have t: "take 500 (drop 900 (py_split s)) = drop 900 (py_split s)"
    using assms by simp
  have "chunk_text s 500 50 =
      Some (map (\<lambda>k. join '' '' (take (nat 500) (drop (k * nat (500 - 50)) (py_split s))))
             [0..<nat \<lceil>real (length (py_split s)) / real_of_int (500 - 50)\<rceil>])"
    by (rule chunk_text_windows) simp_all
  then have "chunk_text s 500 50 =
      Some (map (\<lambda>k. join '' '' (take (nat 500) (drop (k * nat (500 - 50)) (py_split s))))
             [0, 1, 2])"
    by (simp only: n l)
  then show ?thesis using t by simp
qed

section \<open>Properties of the answer flow\<close>

lemma collect_matches_filter:
  "collect_matches rnd ms contexts srcs =
     (contexts @ map match_text (filter (\<lambda>m. 3 / 10 < match_score m) ms),
      srcs @ map (match_source rnd) (filter (\<lambda>m. 3 / 10 < match_score m) ms))"
  by (induction ms arbitrary: contexts srcs)
     (simp_all add: Let_def match_text_def match_source_def)

lemma py_strip_Nil: "py_strip [] = []"
  by (simp add: py_strip_def)

lemma generate_llm_answer_prompts:
  "snd (generate_llm_answer chat c q) = (if py_strip c = [] then [] else [build_prompt c q])"
  by (auto simp: generate_llm_answer_def generate_llm_answer_body_def Let_def py_strip_Nil
      split: sum.splits option.splits)

lemma generate_llm_answer_value:
  "fst (generate_llm_answer chat c q) =
     (if py_strip c = [] then
        ''I couldn't find any relevant information in the documents to answer your question.''
      else (case chat (build_prompt c q) of
              Inl e \<Rightarrow> format_fallback_answer c q
            | Inr None \<Rightarrow> format_fallback_answer c q
            | Inr (Some a) \<Rightarrow>
                if length (py_strip a) < 10 then format_fallback_answer c q else a))"
  by (auto simp: generate_llm_answer_def generate_llm_answer_body_def Let_def py_strip_Nil
      split: sum.splits option.splits)

lemma process_answer_no_matches:
  assumes "embed_query env query = Inr qvec" and "index_query env qvec top_k = Inr results"
    and "results = None \<or> results = Some []"
  shows "process_answer env query top_k =
     (Inr \<lparr>a_answer = ''I couldn't find any relevant information in your documents to answer this question. Please make sure documents are uploaded and indexed.'',
           a_sources = [], a_chunks_used = None, a_error = None\<rparr>, [])"
  using assms by (auto simp: process_answer_def process_answer_body_def)

lemma process_answer_matches:
  assumes "embed_query env query = Inr qvec" and "index_query env qvec top_k = Inr (Some ms)"
    and "ms \<noteq> []"
  shows "process_answer env query top_k =
     (let kept = filter (\<lambda>m. 3 / 10 < match_score m) ms in
      if kept = [] then
        (Inr \<lparr>a_answer = ''The retrieved documents don't seem relevant enough to answer your question confidently.'',
              a_sources = [], a_chunks_used = None, a_error = None\<rparr>, [])
      else (case py_join context_separator (take 3 (map match_text kept)) of
              Inl e \<Rightarrow>
                (Inr \<lparr>a_answer = ''An error occurred while processing your question: '' @ str_exn e,
                      a_sources = [], a_chunks_used = None, a_error = Some (str_exn e)\<rparr>, [])
            | Inr ctx \<Rightarrow>
                (Inr \<lparr>a_answer = fst (generate_llm_answer (chat_completion env) ctx query),
                      a_sources = map (match_source (round4 env)) kept,
                      a_chunks_used = Some (length kept), a_error = None\<rparr>,
                 snd (generate_llm_answer (chat_completion env) ctx query))))"
  using assms
  by (simp add: process_answer_def process_answer_body_def collect_matches_filter Let_def
      split: sum.splits prod.splits)


lemma demo_env_simps:
  "embed_query (demo_answer_env results chat) q = Inr ()"
  "index_query (demo_answer_env results chat) v k = Inr results"
  "chat_completion (demo_answer_env results chat) = chat"
  "round4 (demo_answer_env results chat) x = x"
  by (simp_all add: demo_answer_env_def)

lemma demo_match_simps:
  "match_score (demo_match t x) = x"
  "match_text (demo_match t x) = PyStr t"
  by (simp_all add: demo_match_def match_score_def match_text_def match_meta_def dict_get_def)

text \<open>
  C4. When the search gives no matches the answer is the "no relevant information"
  message with no sources, and nothing is sent to the language model. When it gives
  matches, the sources of the answer are those of the matches with a score above 0.3, in
  order (or none), and the only prompt that can be sent is built from the first three
  texts of those matches.
\<close>

theorem process_answer_relevance_filter:
  assumes "embed_query env query = Inr qvec" and "index_query env qvec top_k = Inr results"
  shows "(results = None \<or> results = Some [] \<longrightarrow>
           process_answer env query top_k =
             (Inr \<lparr>a_answer = ''I couldn't find any relevant information in your documents to answer this question. Please make sure documents are uploaded and indexed.'',
                   a_sources = [], a_chunks_used = None, a_error = None\<rparr>, [])) \<and>
         (\<forall>ms. results = Some ms \<and> ms \<noteq> [] \<longrightarrow>
           (\<exists>p. fst (process_answer env query top_k) = Inr p \<and>
                (a_sources p = map (match_source (round4 env))
                                 (filter (\<lambda>m. 3 / 10 < match_score m) ms) \<or>
                 a_sources p = [])) \<and>
           (snd (process_answer env query top_k) = [] \<or>
            (\<exists>ctx. py_join context_separator
                      (take 3 (map match_text (filter (\<lambda>m. 3 / 10 < match_score m) ms))) = Inr ctx \<and>
                   snd (process_answer env query top_k) = [build_prompt ctx query])))"
proof (intro conjI allI impI)
  assume "results = None \<or> results = Some []"
  with assms show "process_answer env query top_k =
      (Inr \<lparr>a_answer = ''I couldn't find any relevant information in your documents to answer this question. Please make sure documents are uploaded and indexed.'',
            a_sources = [], a_chunks_used = None, a_error = None\<rparr>, [])"
    by (rule process_answer_no_matches)
next
  fix ms assume "results = Some ms \<and> ms \<noteq> []"
  with assms have eq: "process_answer env query top_k = (let kept = filter (\<lambda>m. 3 / 10 < match_score m) ms in
      if kept = [] then
        (Inr \<lparr>a_answer = ''The retrieved documents don't seem relevant enough to answer your question confidently.'',
              a_sources = [], a_chunks_used = None, a_error = None\<rparr>, [])
      else (case py_join context_separator (take 3 (map match_text kept)) of
              Inl e \<Rightarrow>
                (Inr \<lparr>a_answer = ''An error occurred while processing your question: '' @ str_exn e,
                      a_sources = [], a_chunks_used = None, a_error = Some (str_exn e)\<rparr>, [])
            | Inr ctx \<Rightarrow>
                (Inr \<lparr>a_answer = fst (generate_llm_answer (chat_completion env) ctx query),
                      a_sources = map (match_source (round4 env)) kept,
                      a_chunks_used = Some (length kept), a_error = None\<rparr>,
                 snd (generate_llm_answer (chat_completion env) ctx query))))"
    by (intro process_answer_matches) simp_all
  show "\<exists>p. fst (process_answer env query top_k) = Inr p \<and>
           (a_sources p = map (match_source (round4 env)) (filter (\<lambda>m. 3 / 10 < match_score m) ms) \<or>
            a_sources p = [])"
    unfolding eq by (simp add: Let_def split: sum.splits)
  show "snd (process_answer env query top_k) = [] \<or>
        (\<exists>ctx. py_join context_separator
                  (take 3 (map match_text (filter (\<lambda>m. 3 / 10 < match_score m) ms))) = Inr ctx \<and>
               snd (process_answer env query top_k) = [build_prompt ctx query])"
    unfolding eq by (simp add: Let_def generate_llm_answer_prompts split: sum.splits)
qed

theorem process_answer_relevance_filter_witness:
  "embed_query (demo_answer_env (Some [demo_match ''c1'' (9 / 10), demo_match ''c2'' (1 / 5)]) demo_chat) ''q'' = Inr () \<and>
   index_query (demo_answer_env (Some [demo_match ''c1'' (9 / 10), demo_match ''c2'' (1 / 5)]) demo_chat) () 4 =
     Inr (Some [demo_match ''c1'' (9 / 10), demo_match ''c2'' (1 / 5)]) \<and>
   (\<exists>p. fst (process_answer (demo_answer_env (Some [demo_match ''c1'' (9 / 10), demo_match ''c2'' (1 / 5)]) demo_chat) ''q'' 4) = Inr p \<and>
        (a_sources p = [match_source (\<lambda>s. s) (demo_match ''c1'' (9 / 10))] \<or> a_sources p = [])) \<and>
   (snd (process_answer (demo_answer_env (Some [demo_match ''c1'' (9 / 10), demo_match ''c2'' (1 / 5)]) demo_chat) ''q'' 4) = [] \<or>
    snd (process_answer (demo_answer_env (Some [demo_match ''c1'' (9 / 10), demo_match ''c2'' (1 / 5)]) demo_chat) ''q'' 4) =
      [build_prompt ''c1'' ''q''])"
proof -
  let ?ms = "[demo_match ''c1'' (9 / 10), demo_match ''c2'' (1 / 5)]"
  let ?env = "demo_answer_env (Some ?ms) demo_chat"
  have h1: "embed_query ?env ''q'' = Inr ()" and h2: "index_query ?env () 4 = Inr (Some ?ms)"
    by (simp_all add: demo_env_simps)
  have kept: "filter (\<lambda>m. 3 / 10 < match_score m) ?ms = [demo_match ''c1'' (9 / 10)]"
    by (simp add: demo_match_simps)
  have r: "round4 ?env = (\<lambda>s. s)" by (simp add: demo_answer_env_def)
  have j: "py_join context_separator (take 3 (map match_text [demo_match ''c1'' (9 / 10)])) = Inr ''c1''"
    by (simp add: demo_match_simps py_join_def)
  from process_answer_relevance_filter [OF h1 h2]
  have "(\<exists>p. fst (process_answer ?env ''q'' 4) = Inr p \<and>
           (a_sources p = map (match_source (round4 ?env)) (filter (\<lambda>m. 3 / 10 < match_score m) ?ms) \<or>
            a_sources p = [])) \<and>
        (snd (process_answer ?env ''q'' 4) = [] \<or>
          (\<exists>ctx. py_join context_separator
                    (take 3 (map match_text (filter (\<lambda>m. 3 / 10 < match_score m) ?ms))) = Inr ctx \<and>
                 snd (process_answer ?env ''q'' 4) = [build_prompt ctx ''q'']))"
    by blast
  then have "(\<exists>p. fst (process_answer ?env ''q'' 4) = Inr p \<and>
           (a_sources p = [match_source (\<lambda>s. s) (demo_match ''c1'' (9 / 10))] \<or> a_sources p = [])) \<and>
        (snd (process_answer ?env ''q'' 4) = [] \<or>
         snd (process_answer ?env ''q'' 4) = [build_prompt ''c1'' ''q''])"
    unfolding kept r j by simp
  with h1 h2 show ?thesis by (intro conjI) blast+
qed

text \<open>
  C10. When the search gives matches and none has a score above 0.3, the answer is the
  "not relevant enough" message and its sources are the empty list.
\<close>

theorem process_answer_none_relevant:
  assumes "embed_query env query = Inr qvec" and "index_query env qvec top_k = Inr (Some ms)"
    and "ms \<noteq> []" and "\<forall>m\<in>set ms. \<not> 3 / 10 < match_score m"
  shows "process_answer env query top_k =
     (Inr \<lparr>a_answer = ''The retrieved documents don't seem relevant enough to answer your question confidently.'',
           a_sources = [], a_chunks_used = None, a_error = None\<rparr>, [])"
proof -
  have "filter (\<lambda>m. 3 / 10 < match_score m) ms = []"
    using assms(4) by (simp add: filter_empty_conv)
  then show ?thesis
    using process_answer_matches [OF assms(1-3)] by (simp add: Let_def)
qed

theorem process_answer_none_relevant_witness:
  "embed_query (demo_answer_env (Some [demo_match ''c1'' (1 / 5), demo_match ''c2'' (3 / 10)]) demo_chat) ''q'' = Inr () \<and>
   index_query (demo_answer_env (Some [demo_match ''c1'' (1 / 5), demo_match ''c2'' (3 / 10)]) demo_chat) () 4 =
     Inr (Some [demo_match ''c1'' (1 / 5), demo_match ''c2'' (3 / 10)]) \<and>
   [demo_match ''c1'' (1 / 5), demo_match ''c2'' (3 / 10)] \<noteq> [] \<and>
   \<not> 3 / 10 < match_score (demo_match ''c1'' (1 / 5)) \<and>
   \<not> 3 / 10 < match_score (demo_match ''c2'' (3 / 10)) \<and>
   process_answer (demo_answer_env (Some [demo_match ''c1'' (1 / 5), demo_match ''c2'' (3 / 10)]) demo_chat) ''q'' 4 =
     (Inr \<lparr>a_answer = ''The retrieved documents don't seem relevant enough to answer your question confidently.'',
           a_sources = [], a_chunks_used = None, a_error = None\<rparr>, [])"
proof -
  let ?ms = "[demo_match ''c1'' (1 / 5), demo_match ''c2'' (3 / 10)]"
  let ?env = "demo_answer_env (Some ?ms) demo_chat"
  have h1: "embed_query ?env ''q'' = Inr ()" and h2: "index_query ?env () 4 = Inr (Some ?ms)"
    by (simp_all add: demo_env_simps)
  have h3: "?ms \<noteq> []" by simp
  have s1: "\<not> 3 / 10 < match_score (demo_match ''c1'' (1 / 5))"
    and s2: "\<not> 3 / 10 < match_score (demo_match ''c2'' (3 / 10))"
    by (simp_all add: demo_match_simps)
  then have h4: "\<forall>m\<in>set ?ms. \<not> 3 / 10 < match_score m" by simp
  from process_answer_none_relevant [OF h1 h2 h3 h4] h1 h2 h3 s1 s2
  show ?thesis by (intro conjI)
qed

lemma py_strip_demo_chat: "py_strip ''The documents say so.'' = ''The documents say so.''"
  by (simp add: py_strip_def isspace_def)

lemma py_strip_padded: "py_strip ''ok          '' = ''ok''"
  by (simp add: py_strip_def isspace_def)

lemma py_strip_ctx: "py_strip ''ctx'' = ''ctx''"
  by (simp add: py_strip_def isspace_def)

lemma py_strip_nonblank:
  assumes "c \<in> set s" and "\<not> isspace c"
  shows "py_strip s \<noteq> []"
proof -
  have "dropWhile isspace s \<noteq> []"
    using assms by (auto simp: dropWhile_eq_Nil_conv)
  moreover have "c \<in> set (dropWhile isspace s)"
    using assms by (induction s) auto
  then have "c \<in> set (rev (dropWhile isspace s))" by simp
  then have "dropWhile isspace (rev (dropWhile isspace s)) \<noteq> []"
    using assms(2) by (auto simp: dropWhile_eq_Nil_conv)
  then show ?thesis by (simp add: py_strip_def)
qed

text \<open>
  C5. Four matches above 0.3: the prompt holds the first three texts, and the answer
  reports four chunks used and lists four sources.
\<close>

theorem process_answer_four_relevant:
  "process_answer (demo_answer_env (Some demo_four) demo_chat) ''q'' 4 =
     (Inr \<lparr>a_answer = ''The documents say so.'',
           a_sources = map (match_source (\<lambda>s. s)) demo_four,
           a_chunks_used = Some 4, a_error = None\<rparr>,
      [build_prompt (''c1'' @ context_separator @ ''c2'' @ context_separator @ ''c3'') ''q''])"
proof -
  let ?env = "demo_answer_env (Some demo_four) demo_chat"
  let ?ctx = "''c1'' @ context_separator @ ''c2'' @ context_separator @ ''c3''"
  have h1: "embed_query ?env ''q'' = Inr ()" and h2: "index_query ?env () 4 = Inr (Some demo_four)"
    by (simp_all add: demo_env_simps)
  have h3: "demo_four \<noteq> []" by (simp add: demo_four_def)
  have kept: "filter (\<lambda>m. 3 / 10 < match_score m) demo_four = demo_four"
    by (simp add: demo_four_def demo_match_simps)
  have len: "length demo_four = 4" by (simp add: demo_four_def)
  have j: "py_join context_separator (take 3 (map match_text demo_four)) = Inr ?ctx"
    by (simp add: demo_four_def demo_match_simps py_join_def)
  have "CHR ''c'' \<in> set ?ctx" and "\<not> isspace CHR ''c''"
    by (simp_all add: isspace_def)
  then have nb: "py_strip ?ctx \<noteq> []" by (rule py_strip_nonblank)
  have a: "fst (generate_llm_answer demo_chat ?ctx ''q'') = ''The documents say so.''"
    using nb by (simp add: generate_llm_answer_value demo_chat_def py_strip_demo_chat)
  have p: "snd (generate_llm_answer demo_chat ?ctx ''q'') = [build_prompt ?ctx ''q'']"
    using nb by (simp add: generate_llm_answer_prompts)
  have r: "round4 ?env = (\<lambda>s. s)" and c: "chat_completion ?env = demo_chat"
    by (simp_all add: demo_answer_env_def)
  show ?thesis
    unfolding process_answer_matches [OF h1 h2 h3] Let_def kept j r c
    using h3 a p len by simp
qed

text \<open>
  Three of four matches above 0.3: the sources are those three, the prompt holds their
  texts, and three chunks are reported.
\<close>

lemma process_answer_three_of_four:
  "process_answer (demo_answer_env (Some demo_three_of_four) demo_chat) ''q'' 4 =
     (Inr \<lparr>a_answer = ''The documents say so.'',
           a_sources = map (match_source (\<lambda>s. s))
             [demo_match ''c1'' (9 / 10), demo_match ''c3'' (4 / 5), demo_match ''c4'' (7 / 10)],
           a_chunks_used = Some 3, a_error = None\<rparr>,
      [build_prompt (''c1'' @ context_separator @ ''c3'' @ context_separator @ ''c4'') ''q''])"
proof -
  let ?env = "demo_answer_env (Some demo_three_of_four) demo_chat"
  let ?ctx = "''c1'' @ context_separator @ ''c3'' @ context_separator @ ''c4''"
  let ?kept = "[demo_match ''c1'' (9 / 10), demo_match ''c3'' (4 / 5), demo_match ''c4'' (7 / 10)]"
  have h1: "embed_query ?env ''q'' = Inr ()"
    and h2: "index_query ?env () 4 = Inr (Some demo_three_of_four)"
    by (simp_all add: demo_env_simps)
  have h3: "demo_three_of_four \<noteq> []" by (simp add: demo_three_of_four_def)
  have kept: "filter (\<lambda>m. 3 / 10 < match_score m) demo_three_of_four = ?kept"
    by (simp add: demo_three_of_four_def demo_match_simps)
  have j: "py_join context_separator (take 3 (map match_text ?kept)) = Inr ?ctx"
    by (simp add: demo_match_simps py_join_def)
  have "CHR ''c'' \<in> set ?ctx" and "\<not> isspace CHR ''c''"
    by (simp_all add: isspace_def)
  then have nb: "py_strip ?ctx \<noteq> []" by (rule py_strip_nonblank)
  have a: "fst (generate_llm_answer demo_chat ?ctx ''q'') = ''The documents say so.''"
    using nb by (simp add: generate_llm_answer_value demo_chat_def py_strip_demo_chat)
  have p: "snd (generate_llm_answer demo_chat ?ctx ''q'') = [build_prompt ?ctx ''q'']"
    using nb by (simp add: generate_llm_answer_prompts)
  have r: "round4 ?env = (\<lambda>s. s)" and c: "chat_completion ?env = demo_chat"
    by (simp_all add: demo_answer_env_def)
  show ?thesis
    unfolding process_answer_matches [OF h1 h2 h3] Let_def kept j r c
    using a p by simp
qed

text \<open>
  C7 (as amended). On a context that is empty or all whitespace the answerer returns
  a fixed message and calls nothing. On any other context it returns the fallback
  when the call raises, when the text is \<open>None\<close>, and when the text stripped of
  surrounding whitespace has fewer than 10 characters; otherwise it returns the text.
  The fallback is the template around the context, cut to its first 500 characters
  and followed by \<open>...\<close> when it is longer.
\<close>

theorem generate_llm_answer_fallback:
  "fst (generate_llm_answer chat context query) =
     (if py_strip context = [] then
        ''I couldn't find any relevant information in the documents to answer your question.''
      else (case chat (build_prompt context query) of
              Inl e \<Rightarrow> format_fallback_answer context query
            | Inr None \<Rightarrow> format_fallback_answer context query
            | Inr (Some a) \<Rightarrow>
                if length (py_strip a) < 10 then format_fallback_answer context query else a)) \<and>
   format_fallback_answer context query =
     ''**Answer to: '' @ query @ ''**'' @ nl @ nl @
     ''Based on the retrieved documents:'' @ nl @ nl @
     (if 500 < length context then take 500 context @ ''...'' else context) @ nl @ nl @
     ''*Note: This is a direct extract from your documents. For a more refined answer, please check the system logs.*''"
  by (simp add: generate_llm_answer_value format_fallback_answer_def Let_def)

theorem generate_llm_answer_padded_counterexample:
  "demo_padded_chat (build_prompt ''ctx'' ''q'') = Inr (Some ''ok          '') \<and>
   ''ok          '' \<noteq> [] \<and> \<not> length ''ok          '' < 10 \<and>
   fst (generate_llm_answer demo_padded_chat ''ctx'' ''q'') = format_fallback_answer ''ctx'' ''q''"
  by (simp add: generate_llm_answer_value demo_padded_chat_def py_strip_padded py_strip_ctx)

section \<open>Properties of the two operations\<close>

lemma chunk_text_returns:
  "chunk_overlap < chunk_size \<Longrightarrow> \<exists>chunks. chunk_text s chunk_size chunk_overlap = Some chunks"
  by (simp add: chunk_text_def chunk_loop_Some Let_def)

lemma process_ingest_body_returns:
  assumes "CHUNK_OVERLAP env < CHUNK_SIZE env"
  shows "\<exists>r evs. process_ingest_body env fileId fileUrl originalName = Some (r, evs)"
proof -
  have "chunk_text s (CHUNK_SIZE env) (CHUNK_OVERLAP env) \<noteq> None" for s
    using chunk_text_returns [OF assms, of s] by auto
  then show ?thesis
    by (simp add: process_ingest_body_def split: sum.split prod.split option.split)
       (metis option.distinct(1))
qed

lemma process_ingest_handler:
  "process_ingest env fileId fileUrl originalName =
     (case process_ingest_body env fileId fileUrl originalName of
        None \<Rightarrow> None
      | Some (Inr resp, evs) \<Rightarrow> Some (Inr resp, evs)
      | Some (Inl e, evs) \<Rightarrow>
          Some (Inr \<lparr>r_ok = False, r_indexed_chunks = None, r_reason = Some (str_exn e)\<rparr>,
                evs @ [Notified \<lparr>p_fileId = fileId, p_status = ''failed'',
                                 p_pages = Some (PyStr (str_exn e)), p_errorMessage = None\<rparr>]))"
  by (simp add: process_ingest_def notify_node_update_def Let_def
      split: option.splits sum.splits prod.splits)

lemma process_answer_handler:
  "process_answer env query top_k =
     (case process_answer_body env query top_k of
        (Inr p, prompts) \<Rightarrow> (Inr p, prompts)
      | (Inl e, prompts) \<Rightarrow>
          (Inr \<lparr>a_answer = ''An error occurred while processing your question: '' @ str_exn e,
                a_sources = [], a_chunks_used = None, a_error = Some (str_exn e)\<rparr>, prompts))"
  by (simp add: process_answer_def)

text \<open>
  C8. \<open>process_answer\<close> always returns a payload, and the error payload with the
  message of the exception when its body raises. \<open>process_ingest\<close> never ends by
  raising: when its body raises it returns \<open>ok = False\<close> with the message as the
  reason, and with \<open>CHUNK_SIZE > CHUNK_OVERLAP\<close> it always returns a response.
\<close>

theorem no_exception_escapes:
  "(\<exists>p. fst (process_answer env query top_k) = Inr p) \<and>
   (\<forall>e. fst (process_answer_body env query top_k) = Inl e \<longrightarrow>
        fst (process_answer env query top_k) =
          Inr \<lparr>a_answer = ''An error occurred while processing your question: '' @ str_exn e,
               a_sources = [], a_chunks_used = None, a_error = Some (str_exn e)\<rparr>) \<and>
   (\<forall>r evs. process_ingest ienv fileId fileUrl originalName = Some (r, evs) \<longrightarrow>
        (\<exists>resp. r = Inr resp)) \<and>
   (\<forall>e evs. process_ingest_body ienv fileId fileUrl originalName = Some (Inl e, evs) \<longrightarrow>
        (\<exists>evs'. process_ingest ienv fileId fileUrl originalName =
           Some (Inr \<lparr>r_ok = False, r_indexed_chunks = None, r_reason = Some (str_exn e)\<rparr>, evs'))) \<and>
   (CHUNK_OVERLAP ienv < CHUNK_SIZE ienv \<longrightarrow>
        (\<exists>resp evs. process_ingest ienv fileId fileUrl originalName = Some (Inr resp, evs)))"
proof (intro conjI allI impI)
  show "\<exists>p. fst (process_answer env query top_k) = Inr p"
    by (simp add: process_answer_handler split: prod.splits sum.splits)
next
  fix e assume "fst (process_answer_body env query top_k) = Inl e"
  then show "fst (process_answer env query top_k) =
      Inr \<lparr>a_answer = ''An error occurred while processing your question: '' @ str_exn e,
           a_sources = [], a_chunks_used = None, a_error = Some (str_exn e)\<rparr>"
    by (cases "process_answer_body env query top_k") (simp add: process_answer_handler)
next
  fix r evs assume r: "process_ingest ienv fileId fileUrl originalName = Some (r, evs)"
  show "\<exists>resp. r = Inr resp"
  proof (cases "process_ingest_body ienv fileId fileUrl originalName")
    case None
    with r show ?thesis by (simp add: process_ingest_handler)
  next
    case (Some a)
    obtain r' evs' where "a = (r', evs')" by (cases a)
    with r Some show ?thesis by (cases r') (auto simp: process_ingest_handler)
  qed
next
  fix e evs assume "process_ingest_body ienv fileId fileUrl originalName = Some (Inl e, evs)"
  then show "\<exists>evs'. process_ingest ienv fileId fileUrl originalName =
      Some (Inr \<lparr>r_ok = False, r_indexed_chunks = None, r_reason = Some (str_exn e)\<rparr>, evs')"
    by (simp add: process_ingest_handler)
next
  assume "CHUNK_OVERLAP ienv < CHUNK_SIZE ienv"
  then obtain r evs where "process_ingest_body ienv fileId fileUrl originalName = Some (r, evs)"
    using process_ingest_body_returns by blast
  then show "\<exists>resp evs. process_ingest ienv fileId fileUrl originalName = Some (Inr resp, evs)"
    by (cases r) (simp_all add: process_ingest_handler)
qed

lemma demo_body_cleanup_fails:
  "process_ingest_body (demo_ingest_env 500 50 demo_remove_fails) ''f1'' ''url'' ''doc.pdf'' =
     Some (Inl (Exception ''Permission denied''),
           [Upserted [(''f1_0'', (),
                       \<lparr>md_fileId = ''f1'', md_chunkId = 0, md_text = ''a b c'',
                        md_source = ''doc.pdf''\<rparr>)],
            Notified \<lparr>p_fileId = ''f1'', p_status = ''indexed'', p_pages = Some (PyInt 1),
                      p_errorMessage = None\<rparr>])"
  by code_simp

lemma demo_answer_down_body:
  "fst (process_answer_body demo_answer_down ''q'' 4) = Inl (Exception ''model not loaded'')"
  by (simp add: process_answer_body_def demo_answer_down_def)

theorem no_exception_escapes_witness:
  "fst (process_answer_body demo_answer_down ''q'' 4) = Inl (Exception ''model not loaded'') \<and>
   fst (process_answer demo_answer_down ''q'' 4) =
     Inr \<lparr>a_answer = ''An error occurred while processing your question: model not loaded'',
          a_sources = [], a_chunks_used = None, a_error = Some ''model not loaded''\<rparr> \<and>
   CHUNK_OVERLAP (demo_ingest_env 500 50 demo_remove_fails) <
     CHUNK_SIZE (demo_ingest_env 500 50 demo_remove_fails) \<and>
   (\<exists>resp evs. process_ingest (demo_ingest_env 500 50 demo_remove_fails) ''f1'' ''url'' ''doc.pdf'' =
      Some (Inr resp, evs)) \<and>
   (\<exists>evs'. process_ingest (demo_ingest_env 500 50 demo_remove_fails) ''f1'' ''url'' ''doc.pdf'' =
      Some (Inr \<lparr>r_ok = False, r_indexed_chunks = None, r_reason = Some ''Permission denied''\<rparr>, evs'))"
proof -
  let ?ienv = "demo_ingest_env 500 50 demo_remove_fails"
  note t = no_exception_escapes [where env = demo_answer_down and query = "''q''" and top_k = 4
      and ienv = ?ienv and fileId = "''f1''" and fileUrl = "''url''" and originalName = "''doc.pdf''"]
  have c: "CHUNK_OVERLAP ?ienv < CHUNK_SIZE ?ienv" by (simp add: demo_ingest_env_def)
  from t demo_answer_down_body
  have a: "fst (process_answer demo_answer_down ''q'' 4) =
     Inr \<lparr>a_answer = ''An error occurred while processing your question: model not loaded'',
          a_sources = [], a_chunks_used = None, a_error = Some ''model not loaded''\<rparr>"
    by simp
  from t c have i1: "\<exists>resp evs. process_ingest ?ienv ''f1'' ''url'' ''doc.pdf'' = Some (Inr resp, evs)"
    by blast
  from t demo_body_cleanup_fails
  have i2: "\<exists>evs'. process_ingest ?ienv ''f1'' ''url'' ''doc.pdf'' =
      Some (Inr \<lparr>r_ok = False, r_indexed_chunks = None, r_reason = Some ''Permission denied''\<rparr>, evs')"
    by simp
  from demo_answer_down_body a c i1 i2 show ?thesis by (intro conjI)
qed

text \<open>
  A run of \<open>process_ingest\<close> that returns has notified the backend once or twice, and
  once when no removal of a file raises.
\<close>

lemma notifications_append:
  "notifications (xs @ ys) = notifications xs @ notifications ys"
  by (induction xs rule: notifications.induct) simp_all

lemma notifications_Upserted: "notifications (map Upserted bs) = []"
  by (induction bs) simp_all

lemma process_ingest_body_notifications:
  assumes "process_ingest_body env fileId fileUrl originalName = Some (r, evs)"
  shows "(case r of
            Inr resp \<Rightarrow> length (notifications evs) = 1
          | Inl e \<Rightarrow> length (notifications evs) \<le> 1 \<and>
                    ((\<forall>path. \<not> isl (os_remove env path)) \<longrightarrow> notifications evs = []))"
  using assms unfolding process_ingest_body_def
  by (auto simp: notifications_append notifications_Upserted
      split: sum.splits prod.splits option.splits if_splits)
     (metis sum.disc(1))

lemma process_ingest_notifications:
  assumes "process_ingest env fileId fileUrl originalName = Some (r, evs)"
  shows "(length (notifications evs) = 1 \<or> length (notifications evs) = 2) \<and>
         ((\<forall>path. \<not> isl (os_remove env path)) \<longrightarrow> length (notifications evs) = 1)"
proof (cases "process_ingest_body env fileId fileUrl originalName")
  case None
  with assms show ?thesis by (simp add: process_ingest_handler)
next
  case (Some a)
  obtain r' evs' where a: "a = (r', evs')" by (cases a)
  show ?thesis
  proof (cases r')
    case (Inr resp)
    with assms Some a process_ingest_body_notifications [of env fileId fileUrl originalName r' evs']
    show ?thesis by (auto simp: process_ingest_handler)
  next
    case (Inl e)
    from process_ingest_body_notifications [of env fileId fileUrl originalName r' evs'] Some a Inl
    have le: "length (notifications evs') \<le> 1"
      and no: "(\<forall>path. \<not> isl (os_remove env path)) \<longrightarrow> notifications evs' = []"
      by simp_all
    from assms Some a Inl have "length (notifications evs) = length (notifications evs') + 1"
      by (auto simp: process_ingest_handler notifications_append)
    with le no show ?thesis by (auto simp: le_Suc_eq)
  qed
qed

text \<open>
  C6. A run in which every step succeeds and the removal of the downloaded file
  raises: the backend is notified twice, first of the success, then of a failure.
\<close>

theorem process_ingest_cleanup_fails:
  "process_ingest (demo_ingest_env 500 50 demo_remove_fails) ''f1'' ''url'' ''doc.pdf'' =
     Some (Inr \<lparr>r_ok = False, r_indexed_chunks = None, r_reason = Some ''Permission denied''\<rparr>,
           [Upserted [(''f1_0'', (),
                       \<lparr>md_fileId = ''f1'', md_chunkId = 0, md_text = ''a b c'',
                        md_source = ''doc.pdf''\<rparr>)],
            Notified \<lparr>p_fileId = ''f1'', p_status = ''indexed'', p_pages = Some (PyInt 1),
                      p_errorMessage = None\<rparr>,
            Notified \<lparr>p_fileId = ''f1'', p_status = ''failed'',
                      p_pages = Some (PyStr ''Permission denied''), p_errorMessage = None\<rparr>])"
  by code_simp

end
